theory Spec2Isabelle
  imports Complex_Main "HOL-Library.Word"
begin

section \<open>Data model of the Python binding of the shape predictor\<close>

text \<open>
  The embedded file is \<^verbatim>\<open>tools/python/src/shape_predictor.cpp\<close>: the glue between
  Python objects and dlib's shape predictor. Exceptions are values of \<open>error\<close>:
  a \<^verbatim>\<open>dlib::error\<close> with its message, Python's IndexError with its message, the
  TypeError that \<^verbatim>\<open>len\<close>, indexing and \<^verbatim>\<open>extract<T>\<close> raise on an object of the
  wrong type, the OverflowError of an int too large for a \<^verbatim>\<open>double\<close>, and the violation
  of a \<^verbatim>\<open>requires\<close> clause of a dlib class.
\<close>

datatype error =
    DlibError string
  | IndexError string
  | TypeError
  | OverflowError
  | ContractViolation

text \<open>
  Modelled from the spec: \<^verbatim>\<open>dlib::full_object_detection\<close>, whose declaration is not part
  of the embedded file. The spec's data model gives it as a bounding box together with an
  ordered landmark sequence. The rectangle type \<open>'rc\<close> and the point type \<open>'pt\<close> are
  parameters: the binding only moves their values around.
\<close>

record ('rc, 'pt) full_object_detection =
  fod_rect :: 'rc
  fod_parts :: "'pt list"

definition get_rect :: "('rc, 'pt) full_object_detection \<Rightarrow> 'rc" where
  "get_rect detection = fod_rect detection"

text \<open>\<^verbatim>\<open>num_parts()\<close> is the size of the stored vector, an \<^verbatim>\<open>unsigned long\<close> read as a natural number.\<close>

definition num_parts :: "('rc, 'pt) full_object_detection \<Rightarrow> nat" where
  "num_parts detection = length (fod_parts detection)"

text \<open>
  \<^verbatim>\<open>part(idx)\<close> requires \<open>idx < num_parts()\<close>; outside of that the class promises nothing,
  which is the value \<open>None\<close> here.
\<close>

definition part :: "('rc, 'pt) full_object_detection \<Rightarrow> nat \<Rightarrow> 'pt option" where
  "part detection idx =
     (if idx < num_parts detection then Some (fod_parts detection ! idx) else None)"

text \<open>
  A \<^verbatim>\<open>boost::python::object\<close>: a list of objects, any other sequence with its items
  (a tuple, an array: \<^verbatim>\<open>len\<close> and indexing work on it as on a list), a float, an int, a
  dlib rectangle, a dlib point, a full object detection, or an object \<open>PyOther\<close> that is
  none of these and has neither a length nor items, which the binding hands on without
  looking inside.
\<close>

datatype ('rc, 'pt, 'o) pyobj =
    PyList "('rc, 'pt, 'o) pyobj list"
  | PySeq "('rc, 'pt, 'o) pyobj list"
  | PyFloat real
  | PyInt int
  | PyRect 'rc
  | PyPoint 'pt
  | PyDet "('rc, 'pt) full_object_detection"
  | PyOther 'o

fun py_len :: "('rc, 'pt, 'o) pyobj \<Rightarrow> error + nat" where
  "py_len (PyList xs) = Inr (length xs)"
| "py_len (PySeq xs) = Inr (length xs)"
| "py_len _ = Inl TypeError"

text \<open>\<^verbatim>\<open>obj[i]\<close> for an index \<open>i\<close> that the binding only ever takes from an \<^verbatim>\<open>unsigned long\<close> counter.\<close>

fun py_getitem :: "('rc, 'pt, 'o) pyobj \<Rightarrow> nat \<Rightarrow> error + ('rc, 'pt, 'o) pyobj" where
  "py_getitem (PyList xs) i =
     (if i < length xs then Inr (xs ! i) else Inl (IndexError ''list index out of range''))"
| "py_getitem (PySeq xs) i =
     (if i < length xs then Inr (xs ! i) else Inl (IndexError ''index out of range''))"
| "py_getitem _ i = Inl TypeError"

fun extract_rectangle :: "('rc, 'pt, 'o) pyobj \<Rightarrow> error + 'rc" where
  "extract_rectangle (PyRect r) = Inr r"
| "extract_rectangle _ = Inl TypeError"

fun extract_point :: "('rc, 'pt, 'o) pyobj \<Rightarrow> error + 'pt" where
  "extract_point (PyPoint p) = Inr p"
| "extract_point _ = Inl TypeError"

fun extract_full_object_detection ::
  "('rc, 'pt, 'o) pyobj \<Rightarrow> error + ('rc, 'pt) full_object_detection" where
  "extract_full_object_detection (PyDet d) = Inr d"
| "extract_full_object_detection _ = Inl TypeError"

text \<open>
  A Python int becomes a \<^verbatim>\<open>double\<close> by rounding to 53 significant bits, to the nearest
  and on a tie to the even one; an int whose rounded magnitude reaches \<open>2 ^ 1024\<close> does not
  convert.
\<close>

fun bit_length :: "nat \<Rightarrow> nat" where
  "bit_length n = (if n = 0 then 0 else Suc (bit_length (n div 2)))"

declare bit_length.simps [simp del]

definition int_to_double :: "int \<Rightarrow> error + real" where
  "int_to_double n =
     (let a = nat \<bar>n\<bar>;
          s = bit_length a - 53;
          q = a div 2 ^ s;
          r = a mod 2 ^ s;
          q' = (if 2 ^ s < 2 * r \<or> (2 * r = 2 ^ s \<and> odd q) then q + 1 else q);
          m = q' * 2 ^ s
      in if 2 ^ 1024 \<le> m then Inl OverflowError
         else Inr (if n < 0 then - real m else real m))"

fun extract_double :: "('rc, 'pt, 'o) pyobj \<Rightarrow> error + real" where
  "extract_double (PyFloat v) = Inr v"
| "extract_double (PyInt n) = int_to_double n"
| "extract_double _ = Inl TypeError"

section \<open>Accessors of a full object detection\<close>

definition full_obj_det_get_rect :: "('rc, 'pt) full_object_detection \<Rightarrow> 'rc" where
  "full_obj_det_get_rect detection = get_rect detection"

definition full_obj_det_num_parts :: "('rc, 'pt) full_object_detection \<Rightarrow> nat" where
  "full_obj_det_num_parts detection = num_parts detection"

text \<open>
  \<^verbatim>\<open>idx\<close> is an \<^verbatim>\<open>unsigned long\<close>, a 64-bit word: the test \<^verbatim>\<open>idx < 0\<close> of the source is kept
  and is never true.
\<close>

definition full_obj_det_part ::
  "('rc, 'pt) full_object_detection \<Rightarrow> 64 word \<Rightarrow> error + 'pt" where
  "full_obj_det_part detection idx =
     (if idx < 0 \<or> num_parts detection \<le> unat idx
      then Inl (IndexError ''Index out of range'')
      else (case part detection (unat idx) of
              None \<Rightarrow> Inl ContractViolation
            | Some p \<Rightarrow> Inr p))"

text \<open>
  The loop \<^verbatim>\<open>for (j = 0; j < num_parts; ++j) parts[j] = detection.part(j)\<close>, run over the
  indices that are left.
\<close>

fun copy_parts ::
  "('rc, 'pt) full_object_detection \<Rightarrow> nat list \<Rightarrow> 'pt list \<Rightarrow> error + 'pt list" where
  "copy_parts detection [] ps = Inr ps"
| "copy_parts detection (j # js) ps =
     (case part detection j of
        None \<Rightarrow> Inl ContractViolation
      | Some p \<Rightarrow> copy_parts detection js (ps[j := p]))"

text \<open>
  \<^verbatim>\<open>std::vector<point> parts(num_parts)\<close> starts as \<open>num_parts\<close> copies of the default point
  \<open>pt0\<close>.
\<close>

definition full_obj_det_parts ::
  "'pt \<Rightarrow> ('rc, 'pt) full_object_detection \<Rightarrow> error + 'pt list" where
  "full_obj_det_parts pt0 detection =
     (let n = num_parts detection
      in copy_parts detection [0..<n] (replicate n pt0))"

text \<open>The loop \<^verbatim>\<open>for (j = 0; j < num_parts; ++j) parts[j] = extract<point>(pyparts[j])\<close>.\<close>

fun extract_parts ::
  "('rc, 'pt, 'o) pyobj \<Rightarrow> nat list \<Rightarrow> 'pt list \<Rightarrow> error + 'pt list" where
  "extract_parts pyparts [] ps = Inr ps"
| "extract_parts pyparts (j # js) ps =
     (case py_getitem pyparts j of
        Inl e \<Rightarrow> Inl e
      | Inr v \<Rightarrow>
          (case extract_point v of
             Inl e \<Rightarrow> Inl e
           | Inr p \<Rightarrow> extract_parts pyparts js (ps[j := p])))"

definition full_obj_det_init ::
  "'pt \<Rightarrow> ('rc, 'pt, 'o) pyobj \<Rightarrow> ('rc, 'pt, 'o) pyobj
     \<Rightarrow> error + ('rc, 'pt) full_object_detection" where
  "full_obj_det_init pt0 pyrect pyparts =
     (case py_len pyparts of
        Inl e \<Rightarrow> Inl e
      | Inr n \<Rightarrow>
          (case extract_rectangle pyrect of
             Inl e \<Rightarrow> Inl e
           | Inr rect \<Rightarrow>
               (case extract_parts pyparts [0..<n] (replicate n pt0) of
                  Inl e \<Rightarrow> Inl e
                | Inr parts \<Rightarrow> Inr \<lparr>fod_rect = rect, fod_parts = parts\<rparr>)))"

section \<open>Running the predictor on a Python image\<close>

text \<open>
  \<^verbatim>\<open>run_predictor\<close> receives the predictor by reference, so the model returns it next to
  the result. The helpers of \<^verbatim>\<open>conversion.h\<close> and the predictor's call operator are not in
  the embedded file and are parameters: \<open>is_gray_python_image\<close>, \<open>is_rgb_python_image\<close>,
  and \<open>predict_gray predictor img box\<close> for \<^verbatim>\<open>predictor(numpy_gray_image(img), box)\<close>,
  \<open>predict_rgb predictor img box\<close> for \<^verbatim>\<open>predictor(numpy_rgb_image(img), box)\<close>.
\<close>

definition run_predictor ::
  "(('rc, 'pt, 'o) pyobj \<Rightarrow> bool) \<Rightarrow> (('rc, 'pt, 'o) pyobj \<Rightarrow> bool)
     \<Rightarrow> ('sp \<Rightarrow> ('rc, 'pt, 'o) pyobj \<Rightarrow> 'rc \<Rightarrow> (error + ('rc, 'pt) full_object_detection) \<times> 'sp)
     \<Rightarrow> ('sp \<Rightarrow> ('rc, 'pt, 'o) pyobj \<Rightarrow> 'rc \<Rightarrow> (error + ('rc, 'pt) full_object_detection) \<times> 'sp)
     \<Rightarrow> 'sp \<Rightarrow> ('rc, 'pt, 'o) pyobj \<Rightarrow> ('rc, 'pt, 'o) pyobj
     \<Rightarrow> (error + ('rc, 'pt) full_object_detection) \<times> 'sp" where
  "run_predictor is_gray_python_image is_rgb_python_image predict_gray predict_rgb
       predictor img rect =
     (case extract_rectangle rect of
        Inl e \<Rightarrow> (Inl e, predictor)
      | Inr box \<Rightarrow>
          if is_gray_python_image img then predict_gray predictor img box
          else if is_rgb_python_image img then predict_rgb predictor img box
          else (Inl (DlibError ''Unsupported image type, must be 8bit gray or RGB image.''),
                predictor))"

section \<open>Training and testing on Python lists\<close>

text \<open>
  What the binding does beyond computing a value is recorded in a log, in order: each call
  of an image conversion, of the trainer (which writes the output file) and of the tester
  (which loads the predictor and runs inference). A function takes the log and returns it,
  extended, next to its result or its exception.
\<close>

datatype event =
    ImagesConverted
  | ImageConverted nat
  | Trained string
  | Tested string

text \<open>
  \<open>to_dlib\<close> is \<^verbatim>\<open>images_and_nested_params_to_dlib\<close> and \<open>trainer\<close> is
  \<^verbatim>\<open>train_shape_predictor_on_images\<close>, both outside of the embedded file; \<open>img0\<close> is a
  default-constructed \<^verbatim>\<open>array2d<rgb_pixel>\<close>. The two containers are created with
  \<open>num_images\<close> default elements and filled by \<open>to_dlib\<close>.
\<close>

definition train_shape_predictor_on_images_py ::
  "'im
     \<Rightarrow> (('rc, 'pt, 'o) pyobj \<Rightarrow> ('rc, 'pt, 'o) pyobj \<Rightarrow> 'im list
          \<Rightarrow> ('rc, 'pt) full_object_detection list list
          \<Rightarrow> error + 'im list \<times> ('rc, 'pt) full_object_detection list list)
     \<Rightarrow> ('im list \<Rightarrow> ('rc, 'pt) full_object_detection list list \<Rightarrow> string \<Rightarrow> 'opts
          \<Rightarrow> error + unit)
     \<Rightarrow> ('rc, 'pt, 'o) pyobj \<Rightarrow> ('rc, 'pt, 'o) pyobj \<Rightarrow> string \<Rightarrow> 'opts
     \<Rightarrow> event list \<Rightarrow> (error + unit) \<times> event list" where
  "train_shape_predictor_on_images_py img0 to_dlib trainer
       pyimages pydetections predictor_output_filename options lg =
     (case py_len pyimages of
        Inl e \<Rightarrow> (Inl e, lg)
      | Inr num_images \<Rightarrow>
          (case py_len pydetections of
             Inl e \<Rightarrow> (Inl e, lg)
           | Inr num_detections \<Rightarrow>
               if num_images \<noteq> num_detections
               then (Inl (DlibError
                 ''The length of the detections list must match the length of the images list.''),
                 lg)
               else
                 (case to_dlib pyimages pydetections
                         (replicate num_images img0) (replicate num_images []) of
                    Inl e \<Rightarrow> (Inl e, lg @ [ImagesConverted])
                  | Inr (images, detections) \<Rightarrow>
                      (trainer images detections predictor_output_filename options,
                       lg @ [ImagesConverted, Trained predictor_output_filename]))))"

text \<open>
  The inner loops \<^verbatim>\<open>for (j = 0; j < num_boxes; ++j) v.push_back(extract<T>(obj[j]))\<close>,
  with \<open>ex\<close> for \<^verbatim>\<open>extract<T>\<close>, run over the indices that are left.
\<close>

fun push_back_items ::
  "(('rc, 'pt, 'o) pyobj \<Rightarrow> error + 'a) \<Rightarrow> ('rc, 'pt, 'o) pyobj \<Rightarrow> nat list \<Rightarrow> 'a list
     \<Rightarrow> error + 'a list" where
  "push_back_items ex obj [] v = Inr v"
| "push_back_items ex obj (j # js) v =
     (case py_getitem obj j of
        Inl e \<Rightarrow> Inl e
      | Inr x \<Rightarrow>
          (case ex x of
             Inl e \<Rightarrow> Inl e
           | Inr a \<Rightarrow> push_back_items ex obj js (v @ [a])))"

text \<open>
  One round of the loop over the images of \<^verbatim>\<open>test_shape_predictor_with_images_py\<close>, on the
  three containers \<open>(detections, scales, images)\<close>. \<open>pyimage_to_dlib_image\<close> is a helper of
  \<^verbatim>\<open>conversion.h\<close>, outside of the embedded file.
\<close>

definition test_loop_body ::
  "(('rc, 'pt, 'o) pyobj \<Rightarrow> error + 'im)
     \<Rightarrow> ('rc, 'pt, 'o) pyobj \<Rightarrow> ('rc, 'pt, 'o) pyobj \<Rightarrow> ('rc, 'pt, 'o) pyobj \<Rightarrow> nat
     \<Rightarrow> nat
     \<Rightarrow> ('rc, 'pt) full_object_detection list list \<times> real list list \<times> 'im list
     \<Rightarrow> event list
     \<Rightarrow> (error + ('rc, 'pt) full_object_detection list list \<times> real list list \<times> 'im list)
          \<times> event list" where
  "test_loop_body pyimage_to_dlib_image pyimages pydetections pyscales num_scales i st lg =
     (case st of (detections, scales, images) \<Rightarrow>
      (case py_getitem pydetections i of
         Inl e \<Rightarrow> (Inl e, lg)
       | Inr pydets_i \<Rightarrow>
      (case py_len pydets_i of
         Inl e \<Rightarrow> (Inl e, lg)
       | Inr num_boxes \<Rightarrow>
      (case push_back_items extract_full_object_detection pydets_i [0..<num_boxes]
              (detections ! i) of
         Inl e \<Rightarrow> (Inl e, lg)
       | Inr dets_i \<Rightarrow>
      (case py_getitem pyimages i of
         Inl e \<Rightarrow> (Inl e, lg)
       | Inr pyimg \<Rightarrow>
      (case pyimage_to_dlib_image pyimg of
         Inl e \<Rightarrow> (Inl e, lg @ [ImageConverted i])
       | Inr im \<Rightarrow>
           if num_scales > 0 then
             (case py_getitem pyscales i of
                Inl e \<Rightarrow> (Inl e, lg @ [ImageConverted i])
              | Inr pyscales_i \<Rightarrow>
             (case py_len pyscales_i of
                Inl e \<Rightarrow> (Inl e, lg @ [ImageConverted i])
              | Inr n \<Rightarrow>
                  if num_boxes \<noteq> n
                  then (Inl (DlibError
                    ''The length of the scales list must match the length of the detections list.''),
                    lg @ [ImageConverted i])
                  else
                    (case push_back_items extract_double pyscales_i [0..<num_boxes]
                            (scales ! i) of
                       Inl e \<Rightarrow> (Inl e, lg @ [ImageConverted i])
                     | Inr scales_i \<Rightarrow>
                         (Inr (detections[i := dets_i], scales[i := scales_i], images[i := im]),
                          lg @ [ImageConverted i]))))
           else (Inr (detections[i := dets_i], scales, images[i := im]),
                 lg @ [ImageConverted i])))))))"

text \<open>The loop \<^verbatim>\<open>for (i = 0; i < num_images; ++i)\<close>: an exception ends it.\<close>

fun for_loop ::
  "nat list \<Rightarrow> (nat \<Rightarrow> 's \<Rightarrow> event list \<Rightarrow> (error + 's) \<times> event list) \<Rightarrow> 's \<Rightarrow> event list
     \<Rightarrow> (error + 's) \<times> event list" where
  "for_loop [] body st lg = (Inr st, lg)"
| "for_loop (i # is) body st lg =
     (case body i st lg of
        (Inl e, lg') \<Rightarrow> (Inl e, lg')
      | (Inr st', lg') \<Rightarrow> for_loop is body st' lg')"

text \<open>
  \<open>tester\<close> is \<^verbatim>\<open>test_shape_predictor_with_images\<close> of \<^verbatim>\<open>shape_predictor.h\<close>, outside of the
  embedded file. \<^verbatim>\<open>scales\<close> stays empty unless \<open>num_scales > 0\<close>.
\<close>

definition test_shape_predictor_with_images_py ::
  "'im \<Rightarrow> (('rc, 'pt, 'o) pyobj \<Rightarrow> error + 'im)
     \<Rightarrow> ('im list \<Rightarrow> ('rc, 'pt) full_object_detection list list \<Rightarrow> real list list \<Rightarrow> string
          \<Rightarrow> error + real)
     \<Rightarrow> ('rc, 'pt, 'o) pyobj \<Rightarrow> ('rc, 'pt, 'o) pyobj \<Rightarrow> ('rc, 'pt, 'o) pyobj \<Rightarrow> string
     \<Rightarrow> event list \<Rightarrow> (error + real) \<times> event list" where
  "test_shape_predictor_with_images_py img0 pyimage_to_dlib_image tester
       pyimages pydetections pyscales predictor_filename lg =
     (case py_len pyimages of
        Inl e \<Rightarrow> (Inl e, lg)
      | Inr num_images \<Rightarrow>
     (case py_len pyscales of
        Inl e \<Rightarrow> (Inl e, lg)
      | Inr num_scales \<Rightarrow>
     (case py_len pydetections of
        Inl e \<Rightarrow> (Inl e, lg)
      | Inr num_detections \<Rightarrow>
          if num_images \<noteq> num_detections
          then (Inl (DlibError
            ''The length of the detections list must match the length of the images list.''),
            lg)
          else if num_scales > 0 \<and> num_scales \<noteq> num_images
          then (Inl (DlibError
            ''The length of the scales list must match the length of the detections list.''),
            lg)
          else
            (case for_loop [0..<num_images]
                    (test_loop_body pyimage_to_dlib_image pyimages pydetections pyscales
                       num_scales)
                    (replicate num_images [],
                     if num_scales > 0 then replicate num_scales [] else [],
                     replicate num_images img0)
                    lg of
               (Inl e, lg') \<Rightarrow> (Inl e, lg')
             | (Inr (detections, scales, images), lg') \<Rightarrow>
                 (tester images detections scales predictor_filename,
                  lg' @ [Tested predictor_filename])))))"

definition test_shape_predictor_with_images_no_scales_py ::
  "'im \<Rightarrow> (('rc, 'pt, 'o) pyobj \<Rightarrow> error + 'im)
     \<Rightarrow> ('im list \<Rightarrow> ('rc, 'pt) full_object_detection list list \<Rightarrow> real list list \<Rightarrow> string
          \<Rightarrow> error + real)
     \<Rightarrow> ('rc, 'pt, 'o) pyobj \<Rightarrow> ('rc, 'pt, 'o) pyobj \<Rightarrow> string
     \<Rightarrow> event list \<Rightarrow> (error + real) \<times> event list" where
  "test_shape_predictor_with_images_no_scales_py img0 pyimage_to_dlib_image tester
       pyimages pydetections predictor_filename lg =
     (let pyscales = PyList []
      in test_shape_predictor_with_images_py img0 pyimage_to_dlib_image tester
           pyimages pydetections pyscales predictor_filename lg)"

section \<open>The evaluator behind \<^verbatim>\<open>test_shape_predictor\<close>\<close>

text \<open>
  Modelled from the spec: the evaluator (section 4.8 of the specification), which is what
  \<^verbatim>\<open>test_shape_predictor_with_images\<close> of \<^verbatim>\<open>shape_predictor.h\<close> computes after loading the
  predictor; neither is part of the embedded file. For each labelled instance it runs the
  predictor on the image and the instance's box, takes the distance between each predicted
  and each true landmark, divided by the instance's scale if scales are supplied, and
  returns the mean over all landmarks of all instances. Length mismatches between images,
  detections and scales, at either level, are rejected. The distance \<open>distance\<close> between two
  points and the predictor \<open>predict\<close> are parameters; \<^verbatim>\<open>double\<close> is read as \<open>real\<close>.
\<close>

definition instance_errors ::
  "('pt \<Rightarrow> 'pt \<Rightarrow> real) \<Rightarrow> ('rc, 'pt) full_object_detection
     \<Rightarrow> ('rc, 'pt) full_object_detection \<Rightarrow> real option \<Rightarrow> real list" where
  "instance_errors distance predicted truth scale =
     map (\<lambda>(p, q). case scale of None \<Rightarrow> distance p q | Some s \<Rightarrow> distance p q / s)
       (zip (fod_parts predicted) (fod_parts truth))"

definition evaluate ::
  "('im \<Rightarrow> 'rc \<Rightarrow> ('rc, 'pt) full_object_detection) \<Rightarrow> ('pt \<Rightarrow> 'pt \<Rightarrow> real)
     \<Rightarrow> 'im list \<Rightarrow> ('rc, 'pt) full_object_detection list list \<Rightarrow> real list list
     \<Rightarrow> error + real" where
  "evaluate predict distance images detections scales =
     (if length images \<noteq> length detections
      then Inl (DlibError ''The list of images must have the same length as the list of detections.'')
      else if scales \<noteq> [] \<and> \<not> list_all2 (\<lambda>s d. length s = length d) scales detections
      then Inl (DlibError ''The list of scales must have the same shape as the list of detections.'')
      else
        (let errs = concat (map (\<lambda>i. concat (map (\<lambda>j.
                      instance_errors distance
                        (predict (images ! i) (get_rect (detections ! i ! j)))
                        (detections ! i ! j)
                        (if scales = [] then None else Some (scales ! i ! j)))
                      [0..<length (detections ! i)]))
                    [0..<length images])
         in Inr (sum_list errs / real (length errs))))"

text \<open>
  Modelled from the spec: \<^verbatim>\<open>test_shape_predictor_with_images\<close>, which loads the predictor
  from the file (\<open>load\<close>, which may fail) and evaluates it.
\<close>

definition test_shape_predictor_with_images ::
  "(string \<Rightarrow> error + 'sp) \<Rightarrow> ('sp \<Rightarrow> 'im \<Rightarrow> 'rc \<Rightarrow> ('rc, 'pt) full_object_detection)
     \<Rightarrow> ('pt \<Rightarrow> 'pt \<Rightarrow> real)
     \<Rightarrow> 'im list \<Rightarrow> ('rc, 'pt) full_object_detection list list \<Rightarrow> real list list \<Rightarrow> string
     \<Rightarrow> error + real" where
  "test_shape_predictor_with_images load predict distance images detections scales
       predictor_filename =
     (case load predictor_filename of
        Inl e \<Rightarrow> Inl e
      | Inr sp \<Rightarrow> evaluate (predict sp) distance images detections scales)"

text \<open>
  What one round of the loop over the images does to \<^verbatim>\<open>scales\<close> when every scale of
  image \<open>i\<close> is 1: a 1 is pushed for each detection of that image.
\<close>

definition add_ones :: "'a list list \<Rightarrow> nat \<Rightarrow> real list list \<Rightarrow> real list list" where
  "add_ones dss i S = S[i := S ! i @ replicate (length (dss ! i)) 1]"

section \<open>The persisted model\<close>

text \<open>
  Modelled from the spec: the shape predictor model and its persistence (the data model and
  the external interfaces of the specification); \<^verbatim>\<open>serialize_pickle<shape_predictor>\<close> and
  dlib's \<^verbatim>\<open>serialize\<close> and \<^verbatim>\<open>deserialize\<close> are not part of the embedded file. A model is
  an initial mean shape and an ordered sequence of cascade stages; a stage is its shared
  feature pool (an anchor landmark and a coordinate offset for each location) and its
  trees; a tree is a binary tree of split features (a pair of pool indices and a
  threshold) whose leaves hold correction vectors, all trees having the same depth. A
  floating-point number is a value of the type \<open>'f\<close> that is only stored and read back,
  never computed with.
\<close>

record 'f split_feature =
  idx1 :: nat
  idx2 :: nat
  thresh :: 'f

datatype 'f regression_tree =
    Leaf "'f list"
  | Node "'f split_feature" "'f regression_tree" "'f regression_tree"

record 'f cascade_stage =
  feature_pool :: "(nat \<times> 'f \<times> 'f) list"
  trees :: "'f regression_tree list"

record 'f shape_predictor_model =
  initial_shape :: "('f \<times> 'f) list"
  tree_depth :: nat
  stages :: "'f cascade_stage list"

text \<open>A tree of depth \<open>d\<close> has its \<open>2 ^ d\<close> leaves at depth \<open>d\<close>.\<close>

fun complete :: "nat \<Rightarrow> 'f regression_tree \<Rightarrow> bool" where
  "complete 0 (Leaf v) = True"
| "complete (Suc d) (Node f l r) = (complete d l \<and> complete d r)"
| "complete _ _ = False"

definition well_formed :: "'f shape_predictor_model \<Rightarrow> bool" where
  "well_formed m =
     list_all (\<lambda>st. list_all (complete (tree_depth m)) (trees st)) (stages m)"

text \<open>
  The layout is a sequence of unsigned integers and floating-point numbers; how each of
  them becomes bytes is the serialization framework's business. It holds a version, the
  initial shape, the depth of the trees, and for each stage the feature pool and, for each
  tree, every node's split feature and every leaf's vector in a fixed traversal order
  (a node, then its left subtree, then its right subtree). A sequence is preceded by its
  length.
\<close>

datatype 'f token = TNat nat | TFloat 'f

definition layout_version :: nat where
  "layout_version = 1"

definition ser_list :: "('a \<Rightarrow> 'f token list) \<Rightarrow> 'a list \<Rightarrow> 'f token list" where
  "ser_list ser xs = TNat (length xs) # concat (map ser xs)"

definition ser_float :: "'f \<Rightarrow> 'f token list" where
  "ser_float v = [TFloat v]"

definition ser_point :: "'f \<times> 'f \<Rightarrow> 'f token list" where
  "ser_point p = [TFloat (fst p), TFloat (snd p)]"

definition ser_pool_entry :: "nat \<times> 'f \<times> 'f \<Rightarrow> 'f token list" where
  "ser_pool_entry e = [TNat (fst e), TFloat (fst (snd e)), TFloat (snd (snd e))]"

definition ser_split :: "'f split_feature \<Rightarrow> 'f token list" where
  "ser_split f = [TNat (idx1 f), TNat (idx2 f), TFloat (thresh f)]"

fun ser_tree :: "'f regression_tree \<Rightarrow> 'f token list" where
  "ser_tree (Leaf v) = ser_list ser_float v"
| "ser_tree (Node f l r) = ser_split f @ ser_tree l @ ser_tree r"

definition ser_stage :: "'f cascade_stage \<Rightarrow> 'f token list" where
  "ser_stage st = ser_list ser_pool_entry (feature_pool st) @ ser_list ser_tree (trees st)"

definition serialize :: "'f shape_predictor_model \<Rightarrow> 'f token list" where
  "serialize m =
     TNat layout_version # ser_list ser_point (initial_shape m)
       @ TNat (tree_depth m) # ser_list ser_stage (stages m)"

text \<open>Reading back: a reader takes the input and returns a value and the rest, or fails.\<close>

fun de_nat :: "'f token list \<Rightarrow> (nat \<times> 'f token list) option" where
  "de_nat (TNat n # ts) = Some (n, ts)"
| "de_nat _ = None"

fun de_float :: "'f token list \<Rightarrow> ('f \<times> 'f token list) option" where
  "de_float (TFloat v # ts) = Some (v, ts)"
| "de_float _ = None"

fun de_items ::
  "('f token list \<Rightarrow> ('a \<times> 'f token list) option) \<Rightarrow> nat \<Rightarrow> 'f token list
     \<Rightarrow> ('a list \<times> 'f token list) option" where
  "de_items de 0 ts = Some ([], ts)"
| "de_items de (Suc n) ts =
     (case de ts of
        None \<Rightarrow> None
      | Some (x, ts') \<Rightarrow>
          (case de_items de n ts' of
             None \<Rightarrow> None
           | Some (xs, ts'') \<Rightarrow> Some (x # xs, ts'')))"

definition de_list ::
  "('f token list \<Rightarrow> ('a \<times> 'f token list) option) \<Rightarrow> 'f token list
     \<Rightarrow> ('a list \<times> 'f token list) option" where
  "de_list de ts =
     (case de_nat ts of
        None \<Rightarrow> None
      | Some (n, ts') \<Rightarrow> de_items de n ts')"

fun de_point :: "'f token list \<Rightarrow> (('f \<times> 'f) \<times> 'f token list) option" where
  "de_point (TFloat x # TFloat y # ts) = Some ((x, y), ts)"
| "de_point _ = None"

fun de_pool_entry :: "'f token list \<Rightarrow> ((nat \<times> 'f \<times> 'f) \<times> 'f token list) option" where
  "de_pool_entry (TNat a # TFloat x # TFloat y # ts) = Some ((a, x, y), ts)"
| "de_pool_entry _ = None"

fun de_split :: "'f token list \<Rightarrow> ('f split_feature \<times> 'f token list) option" where
  "de_split (TNat i # TNat j # TFloat t # ts) = Some (\<lparr>idx1 = i, idx2 = j, thresh = t\<rparr>, ts)"
| "de_split _ = None"

fun de_tree :: "nat \<Rightarrow> 'f token list \<Rightarrow> ('f regression_tree \<times> 'f token list) option" where
  "de_tree 0 ts =
     (case de_list de_float ts of
        None \<Rightarrow> None
      | Some (v, ts') \<Rightarrow> Some (Leaf v, ts'))"
| "de_tree (Suc d) ts =
     (case de_split ts of
        None \<Rightarrow> None
      | Some (f, ts1) \<Rightarrow>
          (case de_tree d ts1 of
             None \<Rightarrow> None
           | Some (l, ts2) \<Rightarrow>
               (case de_tree d ts2 of
                  None \<Rightarrow> None
                | Some (r, ts3) \<Rightarrow> Some (Node f l r, ts3))))"

definition de_stage ::
  "nat \<Rightarrow> 'f token list \<Rightarrow> ('f cascade_stage \<times> 'f token list) option" where
  "de_stage d ts =
     (case de_list de_pool_entry ts of
        None \<Rightarrow> None
      | Some (pool, ts1) \<Rightarrow>
          (case de_list (de_tree d) ts1 of
             None \<Rightarrow> None
           | Some (ts_trees, ts2) \<Rightarrow>
               Some (\<lparr>feature_pool = pool, trees = ts_trees\<rparr>, ts2)))"

text \<open>A layout of another version, a malformed layout and trailing input are refused.\<close>

definition deserialize :: "'f token list \<Rightarrow> 'f shape_predictor_model option" where
  "deserialize ts =
     (case de_nat ts of
        None \<Rightarrow> None
      | Some (v, ts1) \<Rightarrow>
          if v \<noteq> layout_version then None
          else
            (case de_list de_point ts1 of
               None \<Rightarrow> None
             | Some (shape, ts2) \<Rightarrow>
                 (case de_nat ts2 of
                    None \<Rightarrow> None
                  | Some (d, ts3) \<Rightarrow>
                      (case de_list (de_stage d) ts3 of
                         None \<Rightarrow> None
                       | Some (sts, ts4) \<Rightarrow>
                           if ts4 \<noteq> [] then None
                           else Some \<lparr>initial_shape = shape, tree_depth = d, stages = sts\<rparr>))))"

section \<open>Properties of the conversions\<close>

text \<open>
  The conversion of an int to a \<^verbatim>\<open>double\<close> is exact below \<open>2 ^ 53\<close>, rounds to even above,
  and fails from \<open>2 ^ 1024\<close> on.
\<close>

lemma bit_length_numeral:
  "bit_length 0 = 0"
  "bit_length (Suc 0) = Suc 0"
  "bit_length (numeral k) = Suc (bit_length (numeral k div 2))"
  by (simp_all add: bit_length.simps [of 0] bit_length.simps [of "Suc 0"]
      bit_length.simps [of "numeral k"])

lemma int_to_double_examples:
  "int_to_double 5 = Inr 5"
  "int_to_double (- 3) = Inr (- 3)"
  "int_to_double 9007199254740993 = Inr 9007199254740992"
  "int_to_double 9007199254740995 = Inr 9007199254740996"
  "int_to_double (- 9007199254740993) = Inr (- 9007199254740992)"
  by (simp_all add: int_to_double_def Let_def bit_length_numeral)


lemma bit_length_bounds:
  "0 < a \<Longrightarrow> 2 ^ (bit_length a - 1) \<le> a \<and> a < 2 ^ bit_length a"
proof (induction a rule: bit_length.induct)
  case (1 n)
  show ?case
  proof (cases "n div 2 = 0")
    case True
    with "1.prems" have "n = Suc 0" by (simp add: div_eq_0_iff)
    then show ?thesis by (simp add: bit_length.simps [of "Suc 0"] bit_length.simps [of 0])
  next
    case False
    with "1.prems" "1.IH" have ih: "2 ^ (bit_length (n div 2) - 1) \<le> n div 2"
      "n div 2 < 2 ^ bit_length (n div 2)" by simp_all
    have pos: "0 < bit_length (n div 2)"
      using False by (simp add: bit_length.simps [of "n div 2"])
    have bl: "bit_length n = Suc (bit_length (n div 2))"
      using "1.prems" by (simp add: bit_length.simps [of n])
    have "2 ^ (bit_length n - 1) = 2 * 2 ^ (bit_length (n div 2) - 1)"
      using pos bl by (cases "bit_length (n div 2)") simp_all
    also have "\<dots> \<le> 2 * (n div 2)" using ih(1) by simp
    also have "\<dots> \<le> n" by simp
    finally have lo: "2 ^ (bit_length n - 1) \<le> n" .
    have "n < 2 * (n div 2) + 2" by presburger
    also have "\<dots> \<le> 2 * 2 ^ bit_length (n div 2)" using ih(2) by simp
    finally have "n < 2 ^ bit_length n" using bl by simp
    with lo show ?thesis by simp
  qed
qed

lemma int_to_double_exact:
  assumes "\<bar>n\<bar> < 2 ^ 53"
  shows "int_to_double n = Inr (of_int n)"
proof -
  define a where "a = nat \<bar>n\<bar>"
  have a: "a < 2 ^ 53" using assms by (simp add: a_def nat_less_iff)
  have "bit_length a \<le> 53"
  proof (cases "a = 0")
    case True
    then show ?thesis by (simp add: bit_length.simps [of 0])
  next
    case False
    then have "2 ^ (bit_length a - 1) \<le> a" using bit_length_bounds [of a] by simp
    from this a have "(2::nat) ^ (bit_length a - 1) < 2 ^ 53" by (rule le_less_trans)
    then have "bit_length a - 1 < 53"
      by (simp only: power_strict_increasing_iff one_less_numeral_iff semiring_norm)
    then show ?thesis by simp
  qed
  then have s: "bit_length a - 53 = 0" by simp
  have "(2::nat) ^ 53 \<le> 2 ^ 1024" by (rule power_increasing) simp_all
  with a have "a < 2 ^ 1024" by (rule less_le_trans)
  then have big: "\<not> (2 ^ 1024 \<le> a)" by (simp only: not_le)
  have "real a = \<bar>real_of_int n\<bar>" by (simp add: a_def)
  then show ?thesis
    unfolding int_to_double_def Let_def a_def [symmetric] s
    using big by (simp del: power_numeral)
qed


lemma int_to_double_overflow:
  assumes "2 ^ 1024 \<le> \<bar>n\<bar>"
  shows "int_to_double n = Inl OverflowError"
proof -
  define a where "a = nat \<bar>n\<bar>"
  define s where "s = bit_length a - 53"
  have "int (2 ^ 1024) \<le> \<bar>n\<bar>" using assms by (simp only: of_nat_power of_nat_numeral)
  then have a: "2 ^ 1024 \<le> a" unfolding a_def by (simp only: le_nat_iff abs_ge_zero)
  have "(0::nat) < 2 ^ 1024" by (rule zero_less_power) simp
  from this a have pos: "0 < a" by (rule less_le_trans)
  from bit_length_bounds [OF pos]
  have lo: "2 ^ (bit_length a - 1) \<le> a" and hi: "a < 2 ^ bit_length a" by simp_all
  from a hi have "(2::nat) ^ 1024 < 2 ^ bit_length a" by (rule le_less_trans)
  then have bl: "1024 < bit_length a"
    by (simp only: power_strict_increasing_iff one_less_numeral_iff semiring_norm)
  then have e: "bit_length a - 1 = 52 + s" and s: "1024 \<le> 52 + s" by (simp_all add: s_def)
  from lo have "2 ^ 52 * 2 ^ s \<le> a" by (simp only: e power_add)
  then have "2 ^ 52 \<le> a div 2 ^ s" by (simp only: less_eq_div_iff_mult_less_eq zero_less_power zero_less_numeral)
  then have "2 ^ 52 * 2 ^ s \<le> (a div 2 ^ s) * 2 ^ s" by (rule mult_le_mono1)
  moreover have "(2::nat) ^ 1024 \<le> 2 ^ (52 + s)" using s by (intro power_increasing) simp_all
  ultimately have m1: "2 ^ 1024 \<le> (a div 2 ^ s) * 2 ^ s" by (simp only: power_add)
  have "(a div 2 ^ s) * 2 ^ s \<le> (a div 2 ^ s + 1) * 2 ^ s" by (rule mult_le_mono1) simp
  with m1 have m2: "2 ^ 1024 \<le> (a div 2 ^ s + 1) * 2 ^ s" by (rule le_trans)
  show ?thesis
    unfolding int_to_double_def Let_def a_def [symmetric] s_def [symmetric]
    using m1 m2 by (simp del: power_numeral)
qed

section \<open>Properties of the accessors\<close>

text \<open>
  The copy loop of \<^verbatim>\<open>parts()\<close>, started at index \<open>k\<close> on a vector of the right length,
  leaves the first \<open>k\<close> entries alone and sets the others to the stored parts.
\<close>

lemma copy_parts_upt:
  "length ps = length (fod_parts d) \<Longrightarrow> k \<le> length (fod_parts d) \<Longrightarrow>
   copy_parts d [k..<length (fod_parts d)] ps = Inr (take k ps @ drop k (fod_parts d))"
proof (induction "length (fod_parts d) - k" arbitrary: k ps)
  case 0
  then show ?case by simp
next
  case (Suc m)
  then have k: "k < length (fod_parts d)" by simp
  have "copy_parts d [k..<length (fod_parts d)] ps
        = copy_parts d [Suc k..<length (fod_parts d)] (ps[k := fod_parts d ! k])"
    using k by (simp add: upt_conv_Cons part_def num_parts_def)
  also have "\<dots> = Inr (take (Suc k) (ps[k := fod_parts d ! k]) @ drop (Suc k) (fod_parts d))"
    using Suc k by (intro Suc.hyps(1)) simp_all
  also have "take (Suc k) (ps[k := fod_parts d ! k]) @ drop (Suc k) (fod_parts d)
        = take k ps @ drop k (fod_parts d)"
    using k Suc.prems(1) by (simp add: take_Suc_conv_app_nth Cons_nth_drop_Suc)
  finally show ?case .
qed

lemma full_obj_det_parts_eq: "full_obj_det_parts pt0 d = Inr (fod_parts d)"
  using copy_parts_upt [of "replicate (length (fod_parts d)) pt0" d 0]
  by (simp add: full_obj_det_parts_def num_parts_def)

lemma extract_parts_upt:
  fixes obj :: "('rc, 'pt, 'o) pyobj"
  assumes "obj = PyList (map PyPoint qs)"
  shows "length ps = length qs \<Longrightarrow> k \<le> length qs \<Longrightarrow>
   extract_parts obj [k..<length qs] ps = Inr (take k ps @ drop k qs)"
proof (induction "length qs - k" arbitrary: k ps)
  case 0
  then show ?case by simp
next
  case (Suc m)
  then have k: "k < length qs" by simp
  have "extract_parts obj [k..<length qs] ps
        = extract_parts obj [Suc k..<length qs] (ps[k := qs ! k])"
    using k assms by (simp add: upt_conv_Cons)
  also have "\<dots> = Inr (take (Suc k) (ps[k := qs ! k]) @ drop (Suc k) qs)"
    using Suc k by (intro Suc.hyps(1)) simp_all
  also have "take (Suc k) (ps[k := qs ! k]) @ drop (Suc k) qs = take k ps @ drop k qs"
    using k Suc.prems(1) by (simp add: take_Suc_conv_app_nth Cons_nth_drop_Suc)
  finally show ?case .
qed

lemma extract_parts_all:
  "extract_parts (PyList (map PyPoint qs)) [0..<length qs] (replicate (length qs) pt0) = Inr qs"
  using extract_parts_upt [OF refl, of "replicate (length qs) pt0" qs 0] by simp

lemma full_obj_det_init_eq:
  "full_obj_det_init pt0 (PyRect r) (PyList (map PyPoint qs)) = Inr \<lparr>fod_rect = r, fod_parts = qs\<rparr>"
  by (simp add: full_obj_det_init_def extract_parts_all)

text \<open>
  Claim C2. For every detection and every index that an \<^verbatim>\<open>unsigned long\<close> can hold,
  \<^verbatim>\<open>part(idx)\<close> of the binding raises IndexError when \<open>idx\<close> is not below the number of
  parts (the index is not clamped), and returns the stored point at position \<open>idx\<close> when it
  is.
\<close>

theorem full_obj_det_part_range:
  "(num_parts d \<le> unat idx \<longrightarrow> full_obj_det_part d idx = Inl (IndexError ''Index out of range''))
   \<and> (unat idx < num_parts d \<longrightarrow> full_obj_det_part d idx = Inr (fod_parts d ! unat idx))"
  by (simp add: full_obj_det_part_def part_def)

theorem full_obj_det_part_range_witness:
  "(num_parts \<lparr>fod_rect = (), fod_parts = [10, 20, 30 :: nat]\<rparr> \<le> unat (3 :: 64 word)
     \<and> full_obj_det_part \<lparr>fod_rect = (), fod_parts = [10, 20, 30 :: nat]\<rparr> 3
         = Inl (IndexError ''Index out of range''))
   \<and> (num_parts \<lparr>fod_rect = (), fod_parts = [10, 20, 30 :: nat]\<rparr> \<le> unat (- 1 :: 64 word)
     \<and> full_obj_det_part \<lparr>fod_rect = (), fod_parts = [10, 20, 30 :: nat]\<rparr> (- 1)
         = Inl (IndexError ''Index out of range''))
   \<and> (unat (2 :: 64 word) < num_parts \<lparr>fod_rect = (), fod_parts = [10, 20, 30 :: nat]\<rparr>
     \<and> full_obj_det_part \<lparr>fod_rect = (), fod_parts = [10, 20, 30 :: nat]\<rparr> 2 = Inr 30)"
  using full_obj_det_part_range [of "\<lparr>fod_rect = (), fod_parts = [10, 20, 30 :: nat]\<rparr>" 3]
    full_obj_det_part_range [of "\<lparr>fod_rect = (), fod_parts = [10, 20, 30 :: nat]\<rparr>" "- 1"]
    full_obj_det_part_range [of "\<lparr>fod_rect = (), fod_parts = [10, 20, 30 :: nat]\<rparr>" 2]
  by (simp add: num_parts_def unsigned_minus_1_eq_mask mask_eq_exp_minus_1)

text \<open>
  Claim C10. \<^verbatim>\<open>parts()\<close> returns a vector as long as \<^verbatim>\<open>num_parts\<close> whose entry at every
  valid index is what \<^verbatim>\<open>part\<close> returns there; a detection built from a rectangle and a
  list of points has that rectangle, as many parts as the list is long, and the points in
  the order given.
\<close>

theorem full_obj_det_parts_and_init:
  fixes pyrect pyparts :: "('rc, 'pt, 'o) pyobj"
  assumes "pyrect = PyRect rect" and "pyparts = PyList (map PyPoint parts_list)"
  shows "(\<exists>v. full_obj_det_parts pt0 d = Inr v
            \<and> length v = full_obj_det_num_parts d
            \<and> (\<forall>idx. unat idx < full_obj_det_num_parts d
                   \<longrightarrow> full_obj_det_part d idx = Inr (v ! unat idx)))
       \<and> (\<exists>d'. full_obj_det_init pt0 pyrect pyparts = Inr d'
            \<and> full_obj_det_num_parts d' = length parts_list
            \<and> full_obj_det_get_rect d' = rect
            \<and> full_obj_det_parts pt0 d' = Inr parts_list)"
proof (intro conjI)
  show "\<exists>v. full_obj_det_parts pt0 d = Inr v
            \<and> length v = full_obj_det_num_parts d
            \<and> (\<forall>idx. unat idx < full_obj_det_num_parts d
                   \<longrightarrow> full_obj_det_part d idx = Inr (v ! unat idx))"
    by (simp add: full_obj_det_parts_eq full_obj_det_num_parts_def num_parts_def
        full_obj_det_part_def part_def)
next
  have "full_obj_det_init pt0 pyrect pyparts = Inr \<lparr>fod_rect = rect, fod_parts = parts_list\<rparr>"
    unfolding assms by (rule full_obj_det_init_eq)
  then show "\<exists>d'. full_obj_det_init pt0 pyrect pyparts = Inr d'
            \<and> full_obj_det_num_parts d' = length parts_list
            \<and> full_obj_det_get_rect d' = rect
            \<and> full_obj_det_parts pt0 d' = Inr parts_list"
    by (simp add: full_obj_det_parts_eq full_obj_det_num_parts_def num_parts_def
        full_obj_det_get_rect_def get_rect_def)
qed

theorem full_obj_det_parts_and_init_witness:
  "full_obj_det_parts 0 \<lparr>fod_rect = (), fod_parts = [10, 20, 30 :: nat]\<rparr> = Inr [10, 20, 30]
   \<and> unat (2 :: 64 word) < full_obj_det_num_parts \<lparr>fod_rect = (), fod_parts = [10, 20, 30 :: nat]\<rparr>
   \<and> full_obj_det_part \<lparr>fod_rect = (), fod_parts = [10, 20, 30 :: nat]\<rparr> 2 = Inr 30
   \<and> full_obj_det_init 0 (PyRect () :: (unit, nat, unit) pyobj) (PyList (map PyPoint [7, 8]))
       = Inr \<lparr>fod_rect = (), fod_parts = [7, 8]\<rparr>"
proof -
  let ?d = "\<lparr>fod_rect = (), fod_parts = [10, 20, 30 :: nat]\<rparr>"
  from full_obj_det_parts_and_init [OF refl refl, of 0 ?d "()" "[7, 8]"]
  obtain v d' where v: "full_obj_det_parts 0 ?d = Inr v" "length v = full_obj_det_num_parts ?d"
      "\<forall>idx. unat idx < full_obj_det_num_parts ?d \<longrightarrow> full_obj_det_part ?d idx = Inr (v ! unat idx)"
    and d': "full_obj_det_init 0 (PyRect () :: (unit, nat, unit) pyobj) (PyList (map PyPoint [7, 8])) = Inr d'"
      "full_obj_det_num_parts d' = length [7, 8 :: nat]" "full_obj_det_get_rect d' = ()"
      "full_obj_det_parts 0 d' = Inr [7, 8]"
    by blast
  have n: "unat (2 :: 64 word) < full_obj_det_num_parts ?d"
    by (simp add: full_obj_det_num_parts_def num_parts_def)
  have "full_obj_det_part ?d 2 = Inr (v ! unat (2 :: 64 word))"
    using v(3) n by blast
  moreover have "v = [10, 20, 30]"
    using v(1) by (simp add: full_obj_det_parts_def num_parts_def part_def upt_rec)
  moreover have "d' = \<lparr>fod_rect = (), fod_parts = [7, 8]\<rparr>"
    using d'(1) by (simp add: full_obj_det_init_def upt_rec)
  ultimately show ?thesis using v(1) d'(1) n by simp
qed

section \<open>Properties of running the predictor\<close>

text \<open>
  Claim C5. Calling the predictor on an image that is neither 8-bit gray nor RGB raises an
  error and returns the predictor as it was; with a rectangle as box the error is the one
  that names the unsupported image type. A gray image takes the gray path, and an RGB
  image (one that is not gray) takes the RGB path.
\<close>

theorem run_predictor_image_kind:
  fixes img rect :: "('rc, 'pt, 'o) pyobj"
  shows "(\<not> is_gray img \<and> \<not> is_rgb img \<longrightarrow>
            (\<exists>e. run_predictor is_gray is_rgb predict_gray predict_rgb predictor img rect
                   = (Inl e, predictor))
          \<and> run_predictor is_gray is_rgb predict_gray predict_rgb predictor img (PyRect box)
              = (Inl (DlibError ''Unsupported image type, must be 8bit gray or RGB image.''),
                 predictor))
       \<and> (is_gray img \<longrightarrow>
            run_predictor is_gray is_rgb predict_gray predict_rgb predictor img (PyRect box)
              = predict_gray predictor img box)
       \<and> (\<not> is_gray img \<and> is_rgb img \<longrightarrow>
            run_predictor is_gray is_rgb predict_gray predict_rgb predictor img (PyRect box)
              = predict_rgb predictor img box)"
  by (cases "extract_rectangle rect") (simp_all add: run_predictor_def)

theorem run_predictor_image_kind_witness:
  "(\<not> (\<lambda>v. v = PyOther 2) (PyOther (0::nat) :: (unit, unit, nat) pyobj)
      \<and> \<not> (\<lambda>v. v = PyOther 3) (PyOther (0::nat) :: (unit, unit, nat) pyobj)
      \<and> run_predictor (\<lambda>v. v = PyOther 2) (\<lambda>v. v = PyOther 3)
            (\<lambda>p v b. (Inr \<lparr>fod_rect = b, fod_parts = [()]\<rparr>, p))
            (\<lambda>p v b. (Inr \<lparr>fod_rect = b, fod_parts = [(), ()]\<rparr>, p))
            (5::nat) (PyOther (0::nat) :: (unit, unit, nat) pyobj) (PyRect ())
          = (Inl (DlibError ''Unsupported image type, must be 8bit gray or RGB image.''), 5))
   \<and> ((\<lambda>v. v = PyOther 2) (PyOther (2::nat) :: (unit, unit, nat) pyobj)
      \<and> run_predictor (\<lambda>v. v = PyOther 2) (\<lambda>v. v = PyOther 3)
            (\<lambda>p v b. (Inr \<lparr>fod_rect = b, fod_parts = [()]\<rparr>, p))
            (\<lambda>p v b. (Inr \<lparr>fod_rect = b, fod_parts = [(), ()]\<rparr>, p))
            (5::nat) (PyOther (2::nat) :: (unit, unit, nat) pyobj) (PyRect ())
          = (Inr \<lparr>fod_rect = (), fod_parts = [()]\<rparr>, 5))
   \<and> (\<not> (\<lambda>v. v = PyOther 2) (PyOther (3::nat) :: (unit, unit, nat) pyobj)
      \<and> (\<lambda>v. v = PyOther 3) (PyOther (3::nat) :: (unit, unit, nat) pyobj)
      \<and> run_predictor (\<lambda>v. v = PyOther 2) (\<lambda>v. v = PyOther 3)
            (\<lambda>p v b. (Inr \<lparr>fod_rect = b, fod_parts = [()]\<rparr>, p))
            (\<lambda>p v b. (Inr \<lparr>fod_rect = b, fod_parts = [(), ()]\<rparr>, p))
            (5::nat) (PyOther (3::nat) :: (unit, unit, nat) pyobj) (PyRect ())
          = (Inr \<lparr>fod_rect = (), fod_parts = [(), ()]\<rparr>, 5))"
  by (simp add: run_predictor_image_kind)

section \<open>Properties of training and testing\<close>

text \<open>
  Claim C1. When the list of images and the list of detections differ in length,
  \<^verbatim>\<open>train_shape_predictor\<close> raises the error that names the mismatch, and the log is
  the one it started with: no image was converted, the trainer was not called and no file
  was written.
\<close>

theorem train_length_mismatch:
  "length images \<noteq> length object_detections \<Longrightarrow>
   train_shape_predictor_on_images_py img0 to_dlib trainer
     (PyList images) (PyList object_detections) predictor_output_filename options lg
   = (Inl (DlibError
        ''The length of the detections list must match the length of the images list.''), lg)"
  by (simp add: train_shape_predictor_on_images_py_def)

theorem train_length_mismatch_witness:
  "length [PyOther (1::nat) :: (unit, unit, nat) pyobj]
     \<noteq> length [PyList [PyDet \<lparr>fod_rect = (), fod_parts = []\<rparr>], PyList [] :: (unit, unit, nat) pyobj]
   \<and> train_shape_predictor_on_images_py (0::nat)
        (\<lambda>pi pd images detections. Inr (images, detections)) (\<lambda>images detections f (opts::unit). Inr ())
        (PyList [PyOther (1::nat)])
        (PyList [PyList [PyDet \<lparr>fod_rect = (), fod_parts = []\<rparr>], PyList []])
        ''sp.dat'' () []
      = (Inl (DlibError
        ''The length of the detections list must match the length of the images list.''), [])"
  by (simp add: train_length_mismatch)

subsection \<open>The loop over the images\<close>






















subsection \<open>Scales that are all 1\<close>

text \<open>
  With all-ones scales of the shape of the detections, a round of the loop does what the
  round without scales does, and pushes the ones; the loop without scales keeps the
  lengths that the evaluator checks.
\<close>

lemma push_back_items_ones:
  fixes obj :: "('rc, 'pt, 'o) pyobj"
  assumes "obj = PyList (map (\<lambda>_. PyFloat 1) ds)"
  shows "k \<le> length ds \<Longrightarrow>
    push_back_items extract_double obj [k..<length ds] v = Inr (v @ replicate (length ds - k) 1)"
proof (induction "length ds - k" arbitrary: k v)
  case 0
  then show ?case by simp
next
  case (Suc m)
  then have k: "k < length ds" by simp
  have "push_back_items extract_double obj [k..<length ds] v
        = push_back_items extract_double obj [Suc k..<length ds] (v @ [1])"
    using k assms by (simp add: upt_conv_Cons)
  also have "\<dots> = Inr ((v @ [1]) @ replicate (length ds - Suc k) 1)"
    using Suc k by (intro Suc.hyps(1)) simp_all
  also have "(v @ [1]) @ replicate (length ds - Suc k) 1 = v @ replicate (length ds - k) (1::real)"
    using k by (simp add: replicate_Suc [symmetric] Suc_diff_Suc del: replicate_Suc)
  finally show ?case .
qed

lemma push_back_items_length:
  "push_back_items ex obj idxs v = Inr v' \<Longrightarrow> length v' = length v + length idxs"
  by (induction idxs arbitrary: v) (auto split: sum.splits)

lemma push_back_items_ones_all:
  "push_back_items extract_double (PyList (map (\<lambda>_. PyFloat 1) ds)) [0..<length ds] v
   = Inr (v @ replicate (length ds) 1)"
  using push_back_items_ones [OF refl, of 0 ds v] by simp

lemma length_add_ones: "length (add_ones dss i S) = length S"
  by (simp add: add_ones_def)

lemma add_ones_nth_same: "i < length S \<Longrightarrow> add_ones dss i S ! i = S ! i @ replicate (length (dss ! i)) 1"
  by (simp add: add_ones_def)

lemma add_ones_nth_other: "j \<noteq> i \<Longrightarrow> add_ones dss i S ! j = S ! j"
  by (simp add: add_ones_def)

lemma test_loop_body_ones:
  assumes "i < length dss" "i < length S" "0 < num_scales"
  shows "test_loop_body conv pyimages (PyList (map PyList dss))
           (PyList (map (\<lambda>ds. PyList (map (\<lambda>_. PyFloat 1) ds)) dss)) num_scales i (D, S, I) lg
         = (case test_loop_body conv pyimages (PyList (map PyList dss)) (PyList []) 0 i (D, S0, I) lg of
              (Inl e, lg') \<Rightarrow> (Inl e, lg')
            | (Inr (D', S0', I'), lg') \<Rightarrow>
                (Inr (D', add_ones dss i S, I'), lg'))"
  using assms unfolding test_loop_body_def add_ones_def
  by (simp add: push_back_items_ones_all split: sum.splits)

lemma test_loop_body_no_scales:
  assumes "test_loop_body conv pyimages (PyList (map PyList dss)) (PyList []) 0 i (D, S0, I) lg
           = (Inr (D', S0', I'), lg')"
    and "i < length dss"
  shows "S0' = S0 \<and> length I' = length I \<and> length D' = length D
         \<and> (i < length D \<longrightarrow> length (D' ! i) = length (D ! i) + length (dss ! i))
         \<and> (\<forall>j. j \<noteq> i \<longrightarrow> D' ! j = D ! j)"
  using assms unfolding test_loop_body_def
  by (auto split: sum.splits dest: push_back_items_length)

lemma fold_add_ones_length: "length (fold (add_ones dss) idxs S) = length S"
  by (induction idxs arbitrary: S) (simp_all add: length_add_ones)

lemma fold_add_ones_other:
  "j \<notin> set idxs \<Longrightarrow> fold (add_ones dss) idxs S ! j = S ! j"
  by (induction idxs arbitrary: S) (auto simp: add_ones_nth_other)

lemma fold_add_ones_nth:
  "distinct idxs \<Longrightarrow> i \<in> set idxs \<Longrightarrow> i < length S \<Longrightarrow>
   fold (add_ones dss) idxs S ! i = S ! i @ replicate (length (dss ! i)) 1"
proof (induction idxs arbitrary: S)
  case Nil
  then show ?case by simp
next
  case (Cons j idxs)
  show ?case
  proof (cases "i = j")
    case True
    with Cons.prems have "i \<notin> set idxs" by simp
    then have "fold (add_ones dss) idxs (add_ones dss j S) ! i = add_ones dss j S ! i"
      by (rule fold_add_ones_other)
    with True Cons.prems(3) show ?thesis by (simp add: add_ones_nth_same)
  next
    case False
    with Cons.prems have "distinct idxs" "i \<in> set idxs" "i < length (add_ones dss j S)"
      by (simp_all add: length_add_ones)
    from Cons.IH [OF this] False show ?thesis by (simp add: add_ones_nth_other)
  qed
qed

lemma fold_add_ones_all:
  "fold (add_ones dss) [0..<length dss] (replicate (length dss) [])
   = map (\<lambda>ds. replicate (length ds) 1) dss"
  by (rule nth_equalityI) (simp_all add: fold_add_ones_length fold_add_ones_nth)

lemma for_loop_ones:
  assumes "\<forall>i \<in> set idxs. i < length dss \<and> i < length S" "0 < num_scales"
  shows "for_loop idxs (test_loop_body conv pyimages (PyList (map PyList dss))
           (PyList (map (\<lambda>ds. PyList (map (\<lambda>_. PyFloat 1) ds)) dss)) num_scales) (D, S, I) lg
         = (case for_loop idxs (test_loop_body conv pyimages (PyList (map PyList dss)) (PyList []) 0)
                   (D, S0, I) lg of
              (Inl e, lg') \<Rightarrow> (Inl e, lg')
            | (Inr (D', S0', I'), lg') \<Rightarrow> (Inr (D', fold (add_ones dss) idxs S, I'), lg'))"
  using assms(1)
proof (induction idxs arbitrary: D S S0 I lg)
  case Nil
  then show ?case by simp
next
  case (Cons i idxs)
  let ?b0 = "test_loop_body conv pyimages (PyList (map PyList dss)) (PyList []) 0"
  from Cons.prems have i: "i < length dss" "i < length S" by simp_all
  note step = test_loop_body_ones [OF i assms(2), of conv pyimages D I lg S0]
  show ?case
  proof (cases "?b0 i (D, S0, I) lg")
    case (Pair r1 lg1)
    show ?thesis
    proof (cases r1)
      case (Inl e)
      with Pair step show ?thesis by simp
    next
      case (Inr st1)
      obtain D1 S1 I1 where st1: "st1 = (D1, S1, I1)" by (cases st1)
      have "\<forall>k \<in> set idxs. k < length dss \<and> k < length (add_ones dss i S)"
        using Cons.prems by (simp add: length_add_ones)
      from Cons.IH [OF this, of D1 I1 lg1 S1] Pair Inr st1 step
      show ?thesis by (simp split: prod.splits sum.splits)
    qed
  qed
qed

lemma for_loop_no_scales:
  assumes "for_loop idxs (test_loop_body conv pyimages (PyList (map PyList dss)) (PyList []) 0)
             (D, S0, I) lg = (Inr (D', S0', I'), lg')"
    and "distinct idxs" and "\<forall>i \<in> set idxs. i < length dss \<and> i < length D"
  shows "S0' = S0 \<and> length I' = length I \<and> length D' = length D
         \<and> (\<forall>i \<in> set idxs. length (D' ! i) = length (D ! i) + length (dss ! i))
         \<and> (\<forall>j. j \<notin> set idxs \<longrightarrow> D' ! j = D ! j)"
  using assms
proof (induction idxs arbitrary: D S0 I lg)
  case Nil
  then show ?case by simp
next
  case (Cons i idxs)
  let ?b0 = "test_loop_body conv pyimages (PyList (map PyList dss)) (PyList []) 0"
  from Cons.prems(1) obtain D1 S1 I1 lg1 where
    b: "?b0 i (D, S0, I) lg = (Inr (D1, S1, I1), lg1)" and
    l: "for_loop idxs ?b0 (D1, S1, I1) lg1 = (Inr (D', S0', I'), lg')"
    by (auto split: prod.splits sum.splits)
  from Cons.prems(3) have i: "i < length dss" "i < length D" by simp_all
  from test_loop_body_no_scales [OF b i(1)] i(2)
  have b': "S1 = S0" "length I1 = length I" "length D1 = length D"
    "length (D1 ! i) = length (D ! i) + length (dss ! i)" "\<forall>j. j \<noteq> i \<longrightarrow> D1 ! j = D ! j"
    by simp_all
  from Cons.prems have "distinct idxs" "\<forall>k \<in> set idxs. k < length dss \<and> k < length D1"
    using b'(3) by simp_all
  from Cons.IH [OF l this]
  have ih: "S0' = S1" "length I' = length I1" "length D' = length D1"
    "\<forall>k \<in> set idxs. length (D' ! k) = length (D1 ! k) + length (dss ! k)"
    "\<forall>j. j \<notin> set idxs \<longrightarrow> D' ! j = D1 ! j"
    by simp_all
  from Cons.prems(2) have ni: "i \<notin> set idxs" by simp
  show ?case
  proof (intro conjI)
    show "\<forall>k \<in> set (i # idxs). length (D' ! k) = length (D ! k) + length (dss ! k)"
    proof
      fix k assume "k \<in> set (i # idxs)"
      then consider "k = i" | "k \<in> set idxs" "k \<noteq> i" using ni by auto
      then show "length (D' ! k) = length (D ! k) + length (dss ! k)"
      proof cases
        case 1
        with ih(5) ni b'(4) show ?thesis by simp
      next
        case 2
        with ih(4) b'(5) show ?thesis by simp
      qed
    qed
    show "\<forall>j. j \<notin> set (i # idxs) \<longrightarrow> D' ! j = D ! j"
      using ih(5) b'(5) by simp
  qed (use ih b' in simp_all)
qed

lemma instance_errors_one:
  "instance_errors distance predicted truth (Some 1) = instance_errors distance predicted truth None"
  by (simp add: instance_errors_def)

lemma evaluate_all_ones:
  assumes "length detections = length dss"
    and "\<forall>i < length dss. length (detections ! i) = length (dss ! i)"
  shows "evaluate predict distance images detections (map (\<lambda>ds. replicate (length ds) 1) dss)
         = evaluate predict distance images detections []"
proof (cases "length images = length detections \<and> dss \<noteq> []")
  case False
  then show ?thesis by (auto simp: evaluate_def)
next
  case True
  let ?scales = "map (\<lambda>ds. replicate (length ds) (1::real)) dss"
  have shape: "list_all2 (\<lambda>s d. length s = length d) ?scales detections"
    using assms by (simp add: list_all2_conv_all_nth)
  have one: "?scales ! i ! j = 1" if "i < length detections" "j < length (detections ! i)" for i j
    using that assms by simp
  have eq: "map (\<lambda>i. concat (map (\<lambda>j.
            instance_errors distance (predict (images ! i) (get_rect (detections ! i ! j)))
              (detections ! i ! j) (Some (?scales ! i ! j)))
            [0..<length (detections ! i)])) [0..<length detections]
      = map (\<lambda>i. concat (map (\<lambda>j.
            instance_errors distance (predict (images ! i) (get_rect (detections ! i ! j)))
              (detections ! i ! j) None)
            [0..<length (detections ! i)])) [0..<length detections]"
    by (intro map_cong refl arg_cong [where f = concat]) (simp add: one instance_errors_one)
  have "evaluate predict distance images detections ?scales
        = (let errs = concat (map (\<lambda>i. concat (map (\<lambda>j.
            instance_errors distance (predict (images ! i) (get_rect (detections ! i ! j)))
              (detections ! i ! j) (Some (?scales ! i ! j)))
            [0..<length (detections ! i)])) [0..<length detections])
           in Inr (sum_list errs / real (length errs)))"
    using True shape by (simp add: evaluate_def)
  also have "\<dots> = evaluate predict distance images detections []"
    unfolding eq using True by (simp add: evaluate_def)
  finally show ?thesis .
qed

text \<open>
  Claim C4. On every list of images and every nested list of detections, the variant of
  \<^verbatim>\<open>test_shape_predictor\<close> without scales, and the variant with an empty list of scales,
  return what the variant with scales returns on the all-ones scales of the shape of the
  detections: the same mean error or the same exception, and the same log.
\<close>

theorem test_no_scales_all_ones:
  fixes pyimages :: "('rc, 'pt, 'o) pyobj" and detections :: "('rc, 'pt, 'o) pyobj list list"
  defines "pydetections \<equiv> PyList (map PyList detections)"
    and "all_ones \<equiv> PyList (map (\<lambda>ds. PyList (map (\<lambda>_. PyFloat 1) ds)) detections)"
  shows "test_shape_predictor_with_images_no_scales_py img0 pyimage_to_dlib_image
           (test_shape_predictor_with_images load predict distance)
           pyimages pydetections predictor_filename lg
         = test_shape_predictor_with_images_py img0 pyimage_to_dlib_image
           (test_shape_predictor_with_images load predict distance)
           pyimages pydetections all_ones predictor_filename lg
       \<and> test_shape_predictor_with_images_py img0 pyimage_to_dlib_image
           (test_shape_predictor_with_images load predict distance)
           pyimages pydetections (PyList []) predictor_filename lg
         = test_shape_predictor_with_images_py img0 pyimage_to_dlib_image
           (test_shape_predictor_with_images load predict distance)
           pyimages pydetections all_ones predictor_filename lg"
proof -
  have "test_shape_predictor_with_images_py img0 pyimage_to_dlib_image
           (test_shape_predictor_with_images load predict distance)
           pyimages pydetections (PyList []) predictor_filename lg
         = test_shape_predictor_with_images_py img0 pyimage_to_dlib_image
           (test_shape_predictor_with_images load predict distance)
           pyimages pydetections all_ones predictor_filename lg"
  proof (cases "py_len pyimages")
  case (Inl e)
  then show ?thesis
    by (simp add: test_shape_predictor_with_images_py_def pydetections_def all_ones_def)
next
  case (Inr n)
  show ?thesis
  proof (cases "n = length detections \<and> detections \<noteq> []")
    case False
    with Inr show ?thesis
      by (auto simp: test_shape_predictor_with_images_py_def pydetections_def all_ones_def)
  next
    case True
    then have n: "n = length detections" "0 < n" by simp_all
    let ?b0 = "test_loop_body pyimage_to_dlib_image pyimages pydetections (PyList []) 0"
    let ?b1 = "test_loop_body pyimage_to_dlib_image pyimages pydetections all_ones n"
    let ?D = "replicate n []"
    let ?I = "replicate n img0"
    have rel: "for_loop [0..<n] ?b1 (?D, replicate n [], ?I) lg
         = (case for_loop [0..<n] ?b0 (?D, [], ?I) lg of
              (Inl e, lg') \<Rightarrow> (Inl e, lg')
            | (Inr (D', S0', I'), lg') \<Rightarrow>
                (Inr (D', map (\<lambda>ds. replicate (length ds) 1) detections, I'), lg'))"
      unfolding pydetections_def all_ones_def
      using for_loop_ones [of "[0..<n]" detections "replicate n []" n pyimage_to_dlib_image
          pyimages ?D ?I lg "[]"] n
      by (simp add: fold_add_ones_all split: prod.splits sum.splits)
    show ?thesis
    proof (cases "for_loop [0..<n] ?b0 (?D, [], ?I) lg")
      case (Pair r lg')
      show ?thesis
      proof (cases r)
        case (Inl e)
        with Pair rel Inr n show ?thesis
          by (simp add: test_shape_predictor_with_images_py_def pydetections_def all_ones_def)
      next
        case (Inr st)
        obtain D' S0' I' where st: "st = (D', S0', I')" by (cases st)
        have run: "for_loop [0..<n] (test_loop_body pyimage_to_dlib_image pyimages
                     (PyList (map PyList detections)) (PyList []) 0) (?D, [], ?I) lg
                   = (Inr (D', S0', I'), lg')"
          using Pair Inr st by (simp add: pydetections_def)
        from for_loop_no_scales [OF run] n
        have inv: "S0' = []" "length D' = n" "\<forall>i < n. length (D' ! i) = length (detections ! i)"
          by simp_all
        have "evaluate p distance I' D' (map (\<lambda>ds. replicate (length ds) 1) detections)
              = evaluate p distance I' D' []" for p
          using inv n by (intro evaluate_all_ones) simp_all
        with Pair Inr st rel \<open>py_len pyimages = Inr n\<close> n inv(1) show ?thesis
          by (simp add: test_shape_predictor_with_images_py_def pydetections_def all_ones_def
              test_shape_predictor_with_images_def split: sum.splits)
      qed
    qed
  qed
qed
  then show ?thesis
    by (simp add: test_shape_predictor_with_images_no_scales_py_def)
qed

text \<open>
  One image with one detection of two landmarks, predicted at distances 2 and 3 from the
  truth: both variants return the mean error 5/2.
\<close>

theorem test_no_scales_all_ones_witness:
  "test_shape_predictor_with_images_no_scales_py (0::nat) (\<lambda>v. Inr 7)
     (test_shape_predictor_with_images (\<lambda>f. Inr ())
        (\<lambda>sp im box. \<lparr>fod_rect = box, fod_parts = [3, 5 :: real]\<rparr>) (\<lambda>p q. \<bar>p - q\<bar>))
     (PyList [PyOther (0::nat)])
     (PyList (map PyList [[PyDet \<lparr>fod_rect = (), fod_parts = [1, 2]\<rparr>]])) ''sp.dat'' []
   = (Inr (5 / 2), [ImageConverted 0, Tested ''sp.dat''])
   \<and> test_shape_predictor_with_images_py (0::nat) (\<lambda>v. Inr 7)
     (test_shape_predictor_with_images (\<lambda>f. Inr ())
        (\<lambda>sp im box. \<lparr>fod_rect = box, fod_parts = [3, 5 :: real]\<rparr>) (\<lambda>p q. \<bar>p - q\<bar>))
     (PyList [PyOther (0::nat)])
     (PyList (map PyList [[PyDet \<lparr>fod_rect = (), fod_parts = [1, 2]\<rparr>]]))
     (PyList (map (\<lambda>ds. PyList (map (\<lambda>_. PyFloat 1) ds))
        [[PyDet \<lparr>fod_rect = (), fod_parts = [1, 2]\<rparr> :: (unit, real, nat) pyobj]])) ''sp.dat'' []
   = (Inr (5 / 2), [ImageConverted 0, Tested ''sp.dat''])"
proof -
  have a: "test_shape_predictor_with_images_no_scales_py (0::nat) (\<lambda>v. Inr 7)
     (test_shape_predictor_with_images (\<lambda>f. Inr ())
        (\<lambda>sp im box. \<lparr>fod_rect = box, fod_parts = [3, 5 :: real]\<rparr>) (\<lambda>p q. \<bar>p - q\<bar>))
     (PyList [PyOther (0::nat)])
     (PyList (map PyList [[PyDet \<lparr>fod_rect = (), fod_parts = [1, 2]\<rparr> :: (unit, real, nat) pyobj]])) ''sp.dat'' []
   = (Inr (5 / 2), [ImageConverted 0, Tested ''sp.dat''])"
    by (simp add: test_shape_predictor_with_images_no_scales_py_def
        test_shape_predictor_with_images_py_def test_loop_body_def
        test_shape_predictor_with_images_def evaluate_def instance_errors_def get_rect_def)
  show ?thesis
    using a
      test_no_scales_all_ones [where detections = "[[PyDet \<lparr>fod_rect = (), fod_parts = [1, 2]\<rparr> :: (unit, real, nat) pyobj]]"
        and pyimages = "PyList [PyOther (0::nat)]" and ?img0.0 = "0::nat"
        and pyimage_to_dlib_image = "\<lambda>v. Inr 7" and load = "\<lambda>f. Inr ()"
        and predict = "\<lambda>sp im box. \<lparr>fod_rect = box, fod_parts = [3, 5 :: real]\<rparr>"
        and distance = "\<lambda>p q. \<bar>p - q\<bar>" and predictor_filename = "''sp.dat''" and lg = "[]",
        THEN conjunct1]
    by simp
qed

section \<open>Properties of the persisted model\<close>

text \<open>
  Each reader undoes its writer and leaves the rest of the input.
\<close>

lemma de_items_ser:
  assumes "\<And>x rest. x \<in> set xs \<Longrightarrow> de (ser x @ rest) = Some (x, rest)"
  shows "de_items de (length xs) (concat (map ser xs) @ rest) = Some (xs, rest)"
  using assms by (induction xs) simp_all

lemma de_list_ser:
  assumes "\<And>x rest. x \<in> set xs \<Longrightarrow> de (ser x @ rest) = Some (x, rest)"
  shows "de_list de (ser_list ser xs @ rest) = Some (xs, rest)"
  using de_items_ser [of xs de ser rest] assms by (simp add: de_list_def ser_list_def)

lemma de_float_ser: "de_float (ser_float v @ rest) = Some (v, rest)"
  by (simp add: ser_float_def)

lemma de_point_ser: "de_point (ser_point p @ rest) = Some (p, rest)"
  by (simp add: ser_point_def)

lemma de_pool_entry_ser: "de_pool_entry (ser_pool_entry e @ rest) = Some (e, rest)"
  by (simp add: ser_pool_entry_def)

lemma de_split_ser: "de_split (ser_split f @ rest) = Some (f, rest)"
  by (simp add: ser_split_def)

lemma de_tree_ser: "complete d t \<Longrightarrow> de_tree d (ser_tree t @ rest) = Some (t, rest)"
proof (induction d t arbitrary: rest rule: complete.induct)
  case (1 v)
  then show ?case by (simp add: de_list_ser de_float_ser)
next
  case (2 d f l r)
  then show ?case by (simp add: de_split_ser)
qed simp_all

lemma de_stage_ser:
  "list_all (complete d) (trees st) \<Longrightarrow> de_stage d (ser_stage st @ rest) = Some (st, rest)"
  by (simp add: de_stage_def ser_stage_def de_list_ser de_pool_entry_ser de_tree_ser list_all_iff)

lemma deserialize_serialize: "well_formed m \<Longrightarrow> deserialize (serialize m) = Some m"
proof -
  assume wf: "well_formed m"
  have "de_list (de_stage (tree_depth m)) (ser_list ser_stage (stages m) @ []) = Some (stages m, [])"
    using wf by (intro de_list_ser de_stage_ser) (simp add: well_formed_def list_all_iff)
  then show ?thesis
    by (simp add: deserialize_def serialize_def de_list_ser de_point_ser)
qed

text \<open>
  Claim C7. A model whose trees all have the model's depth is read back from its layout as
  the same model, so that whatever \<^verbatim>\<open>predict\<close> computes from a model, an image and a box,
  it computes the same from the model read back.
\<close>

theorem serialize_round_trip:
  assumes "well_formed m"
  shows "\<exists>m'. deserialize (serialize m) = Some m'
           \<and> (\<forall>image box. predict m' image box = predict m image box)"
  using deserialize_serialize [OF assms] by simp

theorem serialize_round_trip_witness:
  "well_formed \<lparr>initial_shape = [(1::nat, 2), (3, 4)], tree_depth = 1,
       stages = [\<lparr>feature_pool = [(0, 5, 6), (1, 7, 8)],
                  trees = [Node \<lparr>idx1 = 0, idx2 = 1, thresh = 9\<rparr> (Leaf [1, 1, 1, 1]) (Leaf [2, 2, 2, 2])]\<rparr>]\<rparr>
   \<and> (\<exists>m'. deserialize (serialize \<lparr>initial_shape = [(1::nat, 2), (3, 4)], tree_depth = 1,
       stages = [\<lparr>feature_pool = [(0, 5, 6), (1, 7, 8)],
                  trees = [Node \<lparr>idx1 = 0, idx2 = 1, thresh = 9\<rparr> (Leaf [1, 1, 1, 1]) (Leaf [2, 2, 2, 2])]\<rparr>]\<rparr>)
         = Some m'
       \<and> (\<forall>(image :: nat) (box :: nat).
             (\<lambda>m i b. initial_shape m) m' image box
             = (\<lambda>m i b. initial_shape m) \<lparr>initial_shape = [(1::nat, 2), (3, 4)], tree_depth = 1,
       stages = [\<lparr>feature_pool = [(0, 5, 6), (1, 7, 8)],
                  trees = [Node \<lparr>idx1 = 0, idx2 = 1, thresh = 9\<rparr> (Leaf [1, 1, 1, 1]) (Leaf [2, 2, 2, 2])]\<rparr>]\<rparr>
               image box))"
proof -
  let ?m = "\<lparr>initial_shape = [(1::nat, 2), (3, 4)], tree_depth = 1,
       stages = [\<lparr>feature_pool = [(0, 5, 6), (1, 7, 8)],
                  trees = [Node \<lparr>idx1 = 0, idx2 = 1, thresh = 9\<rparr> (Leaf [1, 1, 1, 1]) (Leaf [2, 2, 2, 2])]\<rparr>]\<rparr>"
  have wf: "well_formed ?m" by (simp add: well_formed_def)
  from serialize_round_trip [OF wf, where predict = "\<lambda>m (i::nat) (b::nat). initial_shape m"] wf
  show ?thesis by simp
qed

text \<open>
  The layout of a small model: the version, the shape, the depth, and one stage with one
  pool entry and one tree that is a leaf.
\<close>

lemma serialize_example:
  "serialize \<lparr>initial_shape = [(1::nat, 2)], tree_depth = 0,
       stages = [\<lparr>feature_pool = [(0, 5, 6)], trees = [Leaf [7, 8]]\<rparr>]\<rparr>
   = [TNat 1, TNat 1, TFloat 1, TFloat 2, TNat 0, TNat 1, TNat 1, TNat 0, TFloat 5, TFloat 6,
      TNat 1, TNat 2, TFloat 7, TFloat 8]"
  by (simp add: serialize_def ser_list_def ser_point_def ser_stage_def ser_pool_entry_def
      ser_float_def layout_version_def)

end
